theory Spec2Isabelle
  imports Main
begin

section \<open>External libraries\<close>

text \<open>
  The generator of \<^verbatim>\<open>server.py\<close> draws from three external sources: Python's
  \<^verbatim>\<open>random\<close> module, \<^verbatim>\<open>uuid.uuid4\<close> and the \<^verbatim>\<open>Faker\<close> providers. None of them is
  code of the repository. All randomness is taken from one infinite tape of raw draws, which
  is consumed from the front in the order in which the source calls the libraries; since the
  tape is arbitrary, every joint outcome of the three sources is the outcome of some tape.
\<close>

type_synonym rng = "nat \<Rightarrow> nat"

definition draw :: "rng \<Rightarrow> nat \<times> rng" where
  "draw r = (r 0, \<lambda>n. r (Suc n))"

text \<open>Dates are proleptic ordinals (days), datetimes are timestamps; both are integers.\<close>

type_synonym date = int
type_synonym datetime = int

text \<open>Amounts of money: the source rounds floats to two decimals, the model counts hundredths.\<close>

type_synonym money = int

datatype provider =
    First_name | Last_name | Email | Phone_number | Street_address | City | State_abbr
  | Zipcode | Company | Company_email | Bban | Text_50

text \<open>
  What the libraries make of a raw draw: the rendering of a UUID, the text of a Faker
  provider, the dates of the three Faker date providers with the arguments of the source.
\<close>

record library =
  uuid4_str :: "nat \<Rightarrow> string"
  fake_str :: "provider \<Rightarrow> nat \<Rightarrow> string"
  fake_date_of_birth :: "nat \<Rightarrow> date"
  fake_date_between :: "nat \<Rightarrow> date"
  fake_date_time_between :: "nat \<Rightarrow> datetime"

datatype error =
    IndexError string
  | AttributeError string
  | HTTPException nat string

text \<open>\<^verbatim>\<open>random.randint(a, b)\<close>; both call sites pass constants with \<open>a \<le> b\<close>.\<close>

definition randint :: "int \<Rightarrow> int \<Rightarrow> rng \<Rightarrow> int \<times> rng" where
  "randint a b r = (case draw r of (x, r') \<Rightarrow> (a + int x mod (b - a + 1), r'))"

text \<open>\<^verbatim>\<open>round(random.uniform(a, b), 2)\<close>, in hundredths.\<close>

definition uniform_round2 :: "int \<Rightarrow> int \<Rightarrow> rng \<Rightarrow> money \<times> rng" where
  "uniform_round2 a b r =
     (case draw r of (x, r') \<Rightarrow> (100 * a + int x mod (100 * (b - a) + 1), r'))"

text \<open>\<^verbatim>\<open>random.random() < 0.1\<close>: one draw in ten.\<close>

definition random_lt_tenth :: "rng \<Rightarrow> bool \<times> rng" where
  "random_lt_tenth r = (case draw r of (x, r') \<Rightarrow> (x mod 10 = 0, r'))"

text \<open>\<^verbatim>\<open>random.choice(seq)\<close> raises IndexError on an empty sequence.\<close>

definition choice :: "'a list \<Rightarrow> rng \<Rightarrow> error + ('a \<times> rng)" where
  "choice seq r =
     (if seq = [] then Inl (IndexError ''Cannot choose from an empty sequence'')
      else case draw r of (x, r') \<Rightarrow> Inr (seq ! (x mod length seq), r'))"

text \<open>\<^verbatim>\<open>seq[0]\<close> raises IndexError on an empty list.\<close>

definition index0 :: "'a list \<Rightarrow> error + 'a" where
  "index0 seq = (case seq of [] \<Rightarrow> Inl (IndexError ''list index out of range'') | x # _ \<Rightarrow> Inr x)"

text \<open>Sequencing of fallible steps: an exception ends the computation.\<close>

definition and_then :: "error + 'a \<Rightarrow> ('a \<Rightarrow> error + 'b) \<Rightarrow> error + 'b" where
  "and_then m f = (case m of Inl e \<Rightarrow> Inl e | Inr x \<Rightarrow> f x)"

section \<open>Data model of the generator\<close>

record Customer =
  customer_id :: string
  first_name :: string
  last_name :: string
  email :: string
  phone :: string
  address :: string
  city :: string
  state :: string
  zip_code :: string
  date_of_birth :: date
  account_opening_date :: date
  risk_score :: int

record Merchant =
  merchant_id :: string
  merchant_name :: string
  merchant_category :: string
  address :: string
  city :: string
  state :: string
  zip_code :: string
  phone :: string
  email :: string

record Account =
  account_id :: string
  customer_id :: string
  account_type :: string
  account_number :: string
  balance :: money
  opening_date :: date
  status :: string

record Transaction =
  transaction_id :: string
  customer_id :: string
  merchant_id :: string
  account_id :: string
  amount :: money
  transaction_type :: string
  category :: string
  description :: string
  transaction_date :: datetime
  status :: string

record dataset =
  customers :: "Customer list"
  merchants :: "Merchant list"
  accounts :: "Account list"
  transactions :: "Transaction list"

section \<open>generate_sample_data\<close>

subsection \<open>Customers\<close>

definition gen_customer :: "library \<Rightarrow> rng \<Rightarrow> Customer \<times> rng" where
  "gen_customer lib r0 =
     (case draw r0 of (u, r1) \<Rightarrow>
      case draw r1 of (fn, r2) \<Rightarrow>
      case draw r2 of (ln, r3) \<Rightarrow>
      case draw r3 of (em, r4) \<Rightarrow>
      case draw r4 of (ph, r5) \<Rightarrow>
      case draw r5 of (ad, r6) \<Rightarrow>
      case draw r6 of (ci, r7) \<Rightarrow>
      case draw r7 of (st, r8) \<Rightarrow>
      case draw r8 of (zi, r9) \<Rightarrow>
      case draw r9 of (db, r10) \<Rightarrow>
      case draw r10 of (od, r11) \<Rightarrow>
      case randint 10 90 r11 of (rs, r12) \<Rightarrow>
        (\<lparr>Customer.customer_id = uuid4_str lib u,
          first_name = fake_str lib First_name fn,
          last_name = fake_str lib Last_name ln,
          Customer.email = fake_str lib Email em,
          Customer.phone = fake_str lib Phone_number ph,
          Customer.address = fake_str lib Street_address ad,
          Customer.city = fake_str lib City ci,
          Customer.state = fake_str lib State_abbr st,
          Customer.zip_code = fake_str lib Zipcode zi,
          date_of_birth = fake_date_of_birth lib db,
          account_opening_date = fake_date_between lib od,
          risk_score = rs\<rparr>, r12))"

text \<open>The loop \<^verbatim>\<open>for _ in range(num_customers)\<close> with \<open>n\<close> iterations to go.\<close>

fun gen_customers :: "library \<Rightarrow> nat \<Rightarrow> rng \<Rightarrow> Customer list \<times> rng" where
  "gen_customers lib 0 r = ([], r)"
| "gen_customers lib (Suc n) r =
     (case gen_customer lib r of (c, r1) \<Rightarrow>
      case gen_customers lib n r1 of (cs, r2) \<Rightarrow> (c # cs, r2))"

subsection \<open>Merchants\<close>

definition merchant_categories :: "string list" where
  "merchant_categories =
     [''Restaurant'', ''Grocery'', ''Gas Station'', ''Retail'', ''Online'', ''Pharmacy'',
      ''Entertainment'']"

definition gen_merchant :: "library \<Rightarrow> rng \<Rightarrow> error + (Merchant \<times> rng)" where
  "gen_merchant lib r0 =
     (case draw r0 of (u, r1) \<Rightarrow>
      case draw r1 of (nm, r2) \<Rightarrow>
      and_then (choice merchant_categories r2) (\<lambda>(cat, r3).
      case draw r3 of (ad, r4) \<Rightarrow>
      case draw r4 of (ci, r5) \<Rightarrow>
      case draw r5 of (st, r6) \<Rightarrow>
      case draw r6 of (zi, r7) \<Rightarrow>
      case draw r7 of (ph, r8) \<Rightarrow>
      case draw r8 of (em, r9) \<Rightarrow>
        Inr (\<lparr>Merchant.merchant_id = uuid4_str lib u,
              merchant_name = fake_str lib Company nm,
              merchant_category = cat,
              Merchant.address = fake_str lib Street_address ad,
              Merchant.city = fake_str lib City ci,
              Merchant.state = fake_str lib State_abbr st,
              Merchant.zip_code = fake_str lib Zipcode zi,
              Merchant.phone = fake_str lib Phone_number ph,
              Merchant.email = fake_str lib Company_email em\<rparr>, r9)))"

fun gen_merchants :: "library \<Rightarrow> nat \<Rightarrow> rng \<Rightarrow> error + (Merchant list \<times> rng)" where
  "gen_merchants lib 0 r = Inr ([], r)"
| "gen_merchants lib (Suc n) r =
     and_then (gen_merchant lib r) (\<lambda>(m, r1).
     and_then (gen_merchants lib n r1) (\<lambda>(ms, r2). Inr (m # ms, r2)))"

subsection \<open>Accounts\<close>

definition account_types :: "string list" where
  "account_types = [''checking'', ''savings'', ''credit'']"

definition gen_account :: "library \<Rightarrow> Customer \<Rightarrow> rng \<Rightarrow> error + (Account \<times> rng)" where
  "gen_account lib customer r0 =
     (case draw r0 of (u, r1) \<Rightarrow>
      and_then (choice account_types r1) (\<lambda>(ty, r2).
      case draw r2 of (bb, r3) \<Rightarrow>
      case uniform_round2 100 50000 r3 of (bal, r4) \<Rightarrow>
        Inr (\<lparr>Account.account_id = uuid4_str lib u,
              Account.customer_id = Customer.customer_id customer,
              account_type = ty,
              account_number = fake_str lib Bban bb,
              balance = bal,
              opening_date = account_opening_date customer,
              Account.status = ''active''\<rparr>, r4)))"

text \<open>The inner loop \<^verbatim>\<open>for _ in range(num_accounts)\<close> of one customer.\<close>

fun gen_customer_accounts ::
  "library \<Rightarrow> Customer \<Rightarrow> nat \<Rightarrow> rng \<Rightarrow> error + (Account list \<times> rng)" where
  "gen_customer_accounts lib customer 0 r = Inr ([], r)"
| "gen_customer_accounts lib customer (Suc n) r =
     and_then (gen_account lib customer r) (\<lambda>(a, r1).
     and_then (gen_customer_accounts lib customer n r1) (\<lambda>(as, r2). Inr (a # as, r2)))"

text \<open>The outer loop \<^verbatim>\<open>for customer in customers\<close>.\<close>

fun gen_accounts :: "library \<Rightarrow> Customer list \<Rightarrow> rng \<Rightarrow> error + (Account list \<times> rng)" where
  "gen_accounts lib [] r = Inr ([], r)"
| "gen_accounts lib (customer # rest) r =
     (case randint 1 3 r of (num_accounts, r1) \<Rightarrow>
      and_then (gen_customer_accounts lib customer (nat num_accounts) r1) (\<lambda>(own, r2).
      and_then (gen_accounts lib rest r2) (\<lambda>(others, r3). Inr (own @ others, r3))))"

subsection \<open>Transactions\<close>

definition transaction_types :: "string list" where
  "transaction_types = [''purchase'', ''withdrawal'', ''deposit'', ''transfer'', ''payment'']"

definition categories :: "string list" where
  "categories =
     [''Food & Dining'', ''Shopping'', ''Transportation'', ''Bills'', ''Entertainment'',
      ''Healthcare'', ''Travel'']"

text \<open>
  Lines 249 and 250: the accounts of the chosen customer, one of them at random, and the
  first account of the whole list when the customer has none.
\<close>

definition customer_accounts :: "Customer \<Rightarrow> Account list \<Rightarrow> Account list" where
  "customer_accounts customer accs =
     filter (\<lambda>acc. Account.customer_id acc = Customer.customer_id customer) accs"

definition pick_account :: "Customer \<Rightarrow> Account list \<Rightarrow> rng \<Rightarrow> error + (Account \<times> rng)" where
  "pick_account customer accs r =
     (if customer_accounts customer accs \<noteq> [] then choice (customer_accounts customer accs) r
      else and_then (index0 accs) (\<lambda>a. Inr (a, r)))"

text \<open>
  \<^verbatim>\<open>random.choice(['completed', 'pending', 'failed']) if random.random() < 0.1 else 'completed'\<close>
\<close>

definition gen_status :: "rng \<Rightarrow> error + (string \<times> rng)" where
  "gen_status r =
     (case random_lt_tenth r of (b, r1) \<Rightarrow>
        if b then choice [''completed'', ''pending'', ''failed''] r1
        else Inr (''completed'', r1))"

definition gen_transaction ::
  "library \<Rightarrow> Customer list \<Rightarrow> Merchant list \<Rightarrow> Account list \<Rightarrow> rng
     \<Rightarrow> error + (Transaction \<times> rng)" where
  "gen_transaction lib cs ms accs r0 =
     and_then (choice cs r0) (\<lambda>(customer, r1).
     and_then (choice ms r1) (\<lambda>(merchant, r2).
     and_then (pick_account customer accs r2) (\<lambda>(account, r3).
      case draw r3 of (u, r4) \<Rightarrow>
      case uniform_round2 5 2000 r4 of (amt, r5) \<Rightarrow>
     and_then (choice transaction_types r5) (\<lambda>(ty, r6).
     and_then (choice categories r6) (\<lambda>(cat, r7).
      case draw r7 of (tx, r8) \<Rightarrow>
      case draw r8 of (dt, r9) \<Rightarrow>
     and_then (gen_status r9) (\<lambda>(st, r10).
        Inr (\<lparr>transaction_id = uuid4_str lib u,
              Transaction.customer_id = Customer.customer_id customer,
              Transaction.merchant_id = Merchant.merchant_id merchant,
              Transaction.account_id = Account.account_id account,
              amount = amt,
              transaction_type = ty,
              category = cat,
              description = merchant_name merchant @ '' - '' @ fake_str lib Text_50 tx,
              transaction_date = fake_date_time_between lib dt,
              Transaction.status = st\<rparr>, r10)))))))"

fun gen_transactions ::
  "library \<Rightarrow> Customer list \<Rightarrow> Merchant list \<Rightarrow> Account list \<Rightarrow> nat \<Rightarrow> rng
     \<Rightarrow> error + (Transaction list \<times> rng)" where
  "gen_transactions lib cs ms accs 0 r = Inr ([], r)"
| "gen_transactions lib cs ms accs (Suc n) r =
     and_then (gen_transaction lib cs ms accs r) (\<lambda>(t, r1).
     and_then (gen_transactions lib cs ms accs n r1) (\<lambda>(ts, r2). Inr (t # ts, r2)))"

subsection \<open>The whole generator\<close>

text \<open>
  The counts are Python integers; \<^verbatim>\<open>range(n)\<close> is empty for \<open>n \<le> 0\<close>, so a loop over it
  runs \<open>nat n\<close> times.
\<close>

definition generate_sample_data ::
  "library \<Rightarrow> int \<Rightarrow> int \<Rightarrow> int \<Rightarrow> rng \<Rightarrow> error + dataset" where
  "generate_sample_data lib num_customers num_merchants num_transactions r0 =
     (case gen_customers lib (nat num_customers) r0 of (cs, r1) \<Rightarrow>
      and_then (gen_merchants lib (nat num_merchants) r1) (\<lambda>(ms, r2).
      and_then (gen_accounts lib cs r2) (\<lambda>(accs, r3).
      and_then (gen_transactions lib cs ms accs (nat num_transactions) r3) (\<lambda>(ts, r4).
        Inr \<lparr>customers = cs, merchants = ms, accounts = accs, transactions = ts\<rparr>))))"

section \<open>The warehouse gateway\<close>

subsection \<open>Python strings\<close>

text \<open>
  Strings are modelled over 8-bit characters (code points below 256). \<^verbatim>\<open>str.isspace\<close>
  holds there for 9 to 13, 28 to 32, 133 and 160; \<^verbatim>\<open>str.upper\<close> is modelled on the
  letters a to z, the only characters of that range whose upper case is an ASCII letter.
\<close>

definition isspace :: "char \<Rightarrow> bool" where
  "isspace c =
     (let n = (of_char c :: nat)
      in (9 \<le> n \<and> n \<le> 13) \<or> (28 \<le> n \<and> n \<le> 32) \<or> n = 133 \<or> n = 160)"

definition strip :: "string \<Rightarrow> string" where
  "strip s = rev (dropWhile isspace (rev (dropWhile isspace s)))"

definition upper_char :: "char \<Rightarrow> char" where
  "upper_char c =
     (let n = (of_char c :: nat) in if 97 \<le> n \<and> n \<le> 122 then char_of (n - 32) else c)"

definition upper :: "string \<Rightarrow> string" where
  "upper s = map upper_char s"

text \<open>\<^verbatim>\<open>s.count(sub)\<close>: the number of non-overlapping occurrences, from the left.\<close>

function count_sub :: "string \<Rightarrow> string \<Rightarrow> nat" where
  "count_sub s sub =
     (if s = [] then (if sub = [] then 1 else 0)
      else if take (length sub) s = sub
           then 1 + count_sub (drop (max 1 (length sub)) s) sub
           else count_sub (tl s) sub)"
  by pat_completeness auto
termination
  by (relation "measure (\<lambda>(s, sub). length s)") auto

text \<open>The equation of \<open>count_sub\<close> unfolds itself; it is applied by hand or by evaluation.\<close>

declare count_sub.simps [simp del]

text \<open>\<^verbatim>\<open>str(n)\<close> of an integer: decimal digits, a minus sign for a negative number.\<close>

fun str_nat :: "nat \<Rightarrow> string" where
  "str_nat n =
     (if n < 10 then [char_of (48 + n)] else str_nat (n div 10) @ [char_of (48 + n mod 10)])"

declare str_nat.simps [simp del]

definition str_int :: "int \<Rightarrow> string" where
  "str_int i = (if i < 0 then CHR ''-'' # str_nat (nat (- i)) else str_nat (nat i))"

subsection \<open>The driver and the framework\<close>

record SnowflakeConnection =
  account :: string
  username :: string
  password :: string
  warehouse :: string
  database :: string
  schema :: string

text \<open>A live session of the external driver is an opaque handle.\<close>

type_synonym handle = nat

datatype dataframe =
    DataFrame_customers "Customer list"
  | DataFrame_merchants "Merchant list"
  | DataFrame_accounts "Account list"
  | DataFrame_transactions "Transaction list"

text \<open>What the process hands to the driver, in order.\<close>

datatype call =
    Connect SnowflakeConnection
  | Execute handle string
  | Write_pandas handle dataframe string string

type_synonym row = "string list"

text \<open>
  The cursor after \<^verbatim>\<open>cursor.execute\<close>: what \<^verbatim>\<open>fetchall\<close> gives (or the message of the
  exception it raises) and the column names of \<^verbatim>\<open>description\<close>, if there is one.
\<close>

record cursor =
  fetchall :: "string + row list"
  description :: "string list option"

text \<open>
  The collaborators are parameters. The driver answers a call as a function of everything it
  has been handed before; \<open>Inl msg\<close> is an exception whose \<^verbatim>\<open>str\<close> is \<open>msg\<close>.
  \<open>str_HTTPException\<close> is \<^verbatim>\<open>str(e)\<close> of the framework's HTTPException.
\<close>

record env =
  connector_connect :: "call list \<Rightarrow> SnowflakeConnection \<Rightarrow> string + handle"
  cursor_execute :: "call list \<Rightarrow> handle \<Rightarrow> string \<Rightarrow> string + cursor"
  write_pandas ::
    "call list \<Rightarrow> handle \<Rightarrow> dataframe \<Rightarrow> string \<Rightarrow> string \<Rightarrow> string + (bool \<times> nat \<times> nat)"
  str_HTTPException :: "nat \<Rightarrow> string \<Rightarrow> string"

definition str_exception :: "env \<Rightarrow> error \<Rightarrow> string" where
  "str_exception ev e =
     (case e of IndexError msg \<Rightarrow> msg | AttributeError msg \<Rightarrow> msg
      | HTTPException code detail \<Rightarrow> str_HTTPException ev code detail)"

subsection \<open>SnowflakeManager\<close>

record SnowflakeManager =
  connection :: "handle option"
  connection_params :: "SnowflakeConnection option"

text \<open>The global manager instance together with the calls the driver has received so far.\<close>

record world =
  snowflake_manager :: SnowflakeManager
  calls :: "call list"

definition init_world :: world where
  "init_world =
     \<lparr>snowflake_manager = \<lparr>connection = None, connection_params = None\<rparr>, calls = []\<rparr>"

definition sent :: "world \<Rightarrow> call \<Rightarrow> world" where
  "sent w c = w\<lparr>calls := calls w @ [c]\<rparr>"

definition connect :: "env \<Rightarrow> SnowflakeConnection \<Rightarrow> world \<Rightarrow> (error + bool) \<times> world" where
  "connect ev params w =
     (let w1 = w\<lparr>snowflake_manager := (snowflake_manager w)\<lparr>connection_params := Some params\<rparr>\<rparr>
      in case connector_connect ev (calls w) params of
           Inr h \<Rightarrow>
             (Inr True,
              sent (w1\<lparr>snowflake_manager := (snowflake_manager w1)\<lparr>connection := Some h\<rparr>\<rparr>)
                (Connect params))
         | Inl msg \<Rightarrow>
             (Inl (HTTPException 400 (''Snowflake connection failed: '' @ msg)),
              sent w1 (Connect params)))"

datatype query_result =
    Table "string list" "row list"
  | Message string

definition execute_query :: "env \<Rightarrow> string \<Rightarrow> bool \<Rightarrow> world \<Rightarrow> (error + query_result) \<times> world" where
  "execute_query ev query fetch_results w =
     (case connection (snowflake_manager w) of
        None \<Rightarrow> (Inl (HTTPException 400 ''No active Snowflake connection''), w)
      | Some h \<Rightarrow>
          (case cursor_execute ev (calls w) h query of
             Inl msg \<Rightarrow> (Inl (HTTPException 400 (''Query failed: '' @ msg)), sent w (Execute h query))
           | Inr cur \<Rightarrow>
               if fetch_results then
                 (case fetchall cur of
                    Inl msg \<Rightarrow>
                      (Inl (HTTPException 400 (''Query failed: '' @ msg)), sent w (Execute h query))
                  | Inr results \<Rightarrow>
                      (Inr (Table (case description cur of None \<Rightarrow> [] | Some cols \<Rightarrow> cols) results),
                       sent w (Execute h query)))
               else (Inr (Message ''Query executed successfully''), sent w (Execute h query))))"

record load_result =
  success :: bool
  chunks :: nat
  rows :: nat

definition load_dataframe ::
  "env \<Rightarrow> dataframe \<Rightarrow> string \<Rightarrow> string \<Rightarrow> world \<Rightarrow> (error + load_result) \<times> world" where
  "load_dataframe ev df table_name if_exists w =
     (case connection (snowflake_manager w) of
        None \<Rightarrow> (Inl (HTTPException 400 ''No active Snowflake connection''), w)
      | Some h \<Rightarrow>
          (case write_pandas ev (calls w) h df table_name if_exists of
             Inl msg \<Rightarrow>
               (Inl (HTTPException 400 (''Data load failed: '' @ msg)),
                sent w (Write_pandas h df table_name if_exists))
           | Inr (ok, nchunks, nrows) \<Rightarrow>
               (Inr \<lparr>success = ok, chunks = nchunks, rows = nrows\<rparr>,
                sent w (Write_pandas h df table_name if_exists))))"

subsection \<open>Endpoints\<close>

datatype status_reply =
    Status_connected string
  | Status_disconnected

text \<open>
  \<^verbatim>\<open>GET /snowflake/status\<close>. Reading \<^verbatim>\<open>.database\<close> of parameters that are
  \<^verbatim>\<open>None\<close> would raise AttributeError.
\<close>

definition snowflake_status :: "world \<Rightarrow> error + status_reply" where
  "snowflake_status w =
     (if connection (snowflake_manager w) \<noteq> None then
        (case connection_params (snowflake_manager w) of
           None \<Rightarrow> Inl (AttributeError ''NoneType object has no attribute database'')
         | Some params \<Rightarrow> Inr (Status_connected (database params)))
      else Inr Status_disconnected)"

record QueryRequest =
  sql_query :: string
  limit :: "int option"

text \<open>Lines 449 to 451: the string that the endpoint passes on.\<close>

definition limited_query :: "QueryRequest \<Rightarrow> string" where
  "limited_query request =
     (let query = strip (sql_query request)
      in case limit request of
           None \<Rightarrow> query
         | Some n \<Rightarrow>
             if n \<noteq> 0 \<and> count_sub (upper query) ''LIMIT'' = 0
             then query @ '' LIMIT '' @ str_int n
             else query)"

text \<open>\<^verbatim>\<open>POST /query/execute\<close>.\<close>

definition execute_query_endpoint ::
  "env \<Rightarrow> QueryRequest \<Rightarrow> world \<Rightarrow> (error + query_result) \<times> world" where
  "execute_query_endpoint ev request w =
     (if connection (snowflake_manager w) = None
      then (Inl (HTTPException 400 ''No active Snowflake connection''), w)
      else case execute_query ev (limited_query request) True w of
             (Inl e, w') \<Rightarrow> (Inl (HTTPException 400 (str_exception ev e)), w')
           | (Inr result, w') \<Rightarrow> (Inr result, w'))"

record DataGenerationRequest =
  customers :: int
  merchants :: int
  transactions :: int

record data_counts =
  customers :: nat
  merchants :: nat
  accounts :: nat
  transactions :: nat

record generate_reply =
  counts :: data_counts
  load_results :: "load_result list"

text \<open>The four loads of \<^verbatim>\<open>generate_data\<close>, each in replace mode; the first failure ends them.\<close>

fun load_all ::
  "env \<Rightarrow> (dataframe \<times> string) list \<Rightarrow> world \<Rightarrow> (error + load_result list) \<times> world" where
  "load_all ev [] w = (Inr [], w)"
| "load_all ev ((df, table_name) # rest) w =
     (case load_dataframe ev df table_name ''replace'' w of
        (Inl e, w1) \<Rightarrow> (Inl e, w1)
      | (Inr res, w1) \<Rightarrow>
          (case load_all ev rest w1 of
             (Inl e, w2) \<Rightarrow> (Inl e, w2)
           | (Inr ress, w2) \<Rightarrow> (Inr (res # ress), w2)))"

text \<open>\<^verbatim>\<open>POST /data/generate\<close>.\<close>

definition generate_data ::
  "env \<Rightarrow> library \<Rightarrow> DataGenerationRequest \<Rightarrow> rng \<Rightarrow> world \<Rightarrow> (error + generate_reply) \<times> world" where
  "generate_data ev lib request r w =
     (if connection (snowflake_manager w) = None
      then (Inl (HTTPException 400 ''No active Snowflake connection''), w)
      else
        case generate_sample_data lib (DataGenerationRequest.customers request)
               (DataGenerationRequest.merchants request)
               (DataGenerationRequest.transactions request) r of
          Inl e \<Rightarrow>
            (Inl (HTTPException 400 (''Data generation failed: '' @ str_exception ev e)), w)
        | Inr sample_data \<Rightarrow>
            (case load_all ev
                    [(DataFrame_customers (dataset.customers sample_data), ''customers''),
                     (DataFrame_merchants (dataset.merchants sample_data), ''merchants''),
                     (DataFrame_accounts (dataset.accounts sample_data), ''accounts''),
                     (DataFrame_transactions (dataset.transactions sample_data), ''transactions'')]
                    w of
               (Inl e, w') \<Rightarrow>
                 (Inl (HTTPException 400 (''Data generation failed: '' @ str_exception ev e)), w')
             | (Inr results, w') \<Rightarrow>
                 (Inr \<lparr>counts =
                         \<lparr>data_counts.customers = length (dataset.customers sample_data),
                          data_counts.merchants = length (dataset.merchants sample_data),
                          data_counts.accounts = length (dataset.accounts sample_data),
                          data_counts.transactions = length (dataset.transactions sample_data)\<rparr>,
                       load_results = results\<rparr>, w')))"

section \<open>Notions used in the statements\<close>

text \<open>
  The accounts of one iteration of the loop over the customers: between one and three, each
  with the customer's identifier and the customer's account-opening date.
\<close>

definition block_of :: "Customer \<Rightarrow> Account list \<Rightarrow> bool" where
  "block_of c as \<longleftrightarrow>
     1 \<le> length as \<and> length as \<le> 3 \<and>
     list_all (\<lambda>a. Account.customer_id a = Customer.customer_id c
                 \<and> opening_date a = account_opening_date c) as"

text \<open>Concrete collaborators and inputs, for evaluating the model.\<close>

definition demo_lib :: library where
  "demo_lib =
     \<lparr>uuid4_str = (\<lambda>n. replicate n CHR ''u''),
      fake_str = (\<lambda>p n. replicate n CHR ''f''),
      fake_date_of_birth = int,
      fake_date_between = int,
      fake_date_time_between = int\<rparr>"

definition demo_tape :: rng where
  "demo_tape n = n"

definition demo_customer :: Customer where
  "demo_customer = fst (gen_customer demo_lib demo_tape)"

definition demo_merchant :: Merchant where
  "demo_merchant =
     \<lparr>Merchant.merchant_id = ''m1'', merchant_name = ''Acme'', merchant_category = ''Retail'',
      Merchant.address = ''1 Main St'', Merchant.city = ''Springfield'', Merchant.state = ''IL'',
      Merchant.zip_code = ''62701'', Merchant.phone = ''555-0100'',
      Merchant.email = ''info@acme.example''\<rparr>"

text \<open>An account of somebody else: its customer identifier is not the demo customer's.\<close>

definition foreign_account :: Account where
  "foreign_account =
     \<lparr>Account.account_id = ''a1'', Account.customer_id = ''somebody else'',
      account_type = ''checking'', account_number = ''GB00'', balance = 10000,
      opening_date = 0, Account.status = ''active''\<rparr>"

definition demo_params :: SnowflakeConnection where
  "demo_params =
     \<lparr>account = ''acct'', username = ''user'', password = ''secret'',
      warehouse = ''COMPUTE_WH'', database = ''FINANCIAL_DW'', schema = ''PUBLIC''\<rparr>"

definition other_params :: SnowflakeConnection where
  "other_params = demo_params\<lparr>password := ''wrong'', database := ''OTHER_DB''\<rparr>"

text \<open>
  A driver that accepts the password \<open>secret\<close> only, answers every statement with an empty
  result and loads every frame in one chunk.
\<close>

definition demo_env :: env where
  "demo_env =
     \<lparr>connector_connect =
        (\<lambda>cs p. if password p = ''secret'' then Inr (length cs) else Inl ''Incorrect username or password''),
      cursor_execute = (\<lambda>cs h q. Inr \<lparr>fetchall = Inr [], description = None\<rparr>),
      write_pandas = (\<lambda>cs h df t m. Inr (True, 1, 0)),
      str_HTTPException = (\<lambda>code detail. detail)\<rparr>"

definition connected_world :: world where
  "connected_world = snd (connect demo_env demo_params init_world)"

section \<open>Properties of the generator\<close>

lemma and_then_Inr:
  "and_then m f = Inr y \<longleftrightarrow> (\<exists>x. m = Inr x \<and> f x = Inr y)"
  by (cases m) (simp_all add: and_then_def)

lemma and_then_ok: "m = Inr x \<Longrightarrow> and_then m f = f x"
  by (simp add: and_then_def)

lemma choice_Inr:
  "choice seq r = Inr (x, r') \<Longrightarrow> x \<in> set seq"
  by (auto simp: choice_def split: if_splits prod.splits)

lemma choice_ok:
  "seq \<noteq> [] \<Longrightarrow> \<exists>x r'. choice seq r = Inr (x, r')"
  by (simp add: choice_def split: prod.splits)

lemma choice_empty:
  "choice [] r = Inl (IndexError ''Cannot choose from an empty sequence'')"
  by (simp add: choice_def)

lemma randint_bounds:
  "a \<le> b \<Longrightarrow> randint a b r = (x, r') \<Longrightarrow> a \<le> x \<and> x \<le> b"
proof -
  assume ab: "a \<le> b" and eq: "randint a b r = (x, r')"
  have pos: "0 < b - a + 1" using ab by simp
  have x: "x = a + int (fst (draw r)) mod (b - a + 1)"
    using eq by (auto simp: randint_def split: prod.splits)
  have "0 \<le> int (fst (draw r)) mod (b - a + 1)" using pos by simp
  moreover have "int (fst (draw r)) mod (b - a + 1) < b - a + 1"
    using pos by (rule pos_mod_bound)
  ultimately show ?thesis using x by linarith
qed

lemma gen_customer_risk:
  "gen_customer lib r = (c, r') \<Longrightarrow> 10 \<le> risk_score c \<and> risk_score c \<le> 90"
  by (auto simp: gen_customer_def randint_def split: prod.splits)

lemma gen_customers_length:
  "gen_customers lib n r = (cs, r') \<Longrightarrow> length cs = n"
  by (induction n arbitrary: r cs r') (auto split: prod.splits)

lemma gen_customers_risk:
  "gen_customers lib n r = (cs, r') \<Longrightarrow> c \<in> set cs \<Longrightarrow> 10 \<le> risk_score c \<and> risk_score c \<le> 90"
proof (induction n arbitrary: r cs r')
  case 0
  then show ?case by simp
next
  case (Suc n)
  then show ?case
    by (auto split: prod.splits dest: gen_customer_risk)
qed

lemma gen_merchant_ok: "\<exists>m r'. gen_merchant lib r = Inr (m, r')"
  by (simp add: gen_merchant_def choice_def merchant_categories_def and_then_def split: prod.splits)

lemma gen_merchants_ok: "\<exists>ms r'. gen_merchants lib n r = Inr (ms, r') \<and> length ms = n"
proof (induction n arbitrary: r)
  case 0
  show ?case by simp
next
  case (Suc n)
  obtain m r1 where m: "gen_merchant lib r = Inr (m, r1)"
    using gen_merchant_ok by blast
  obtain ms r2 where ms: "gen_merchants lib n r1 = Inr (ms, r2)" "length ms = n"
    using Suc.IH by blast
  show ?case by (simp add: m ms and_then_def)
qed

lemma gen_account_ok:
  "\<exists>a r'. gen_account lib c r = Inr (a, r') \<and> Account.customer_id a = Customer.customer_id c
     \<and> opening_date a = account_opening_date c"
  by (simp add: gen_account_def choice_def account_types_def and_then_def split: prod.splits)

lemma gen_customer_accounts_ok:
  "\<exists>as r'. gen_customer_accounts lib c n r = Inr (as, r') \<and> length as = n
     \<and> (\<forall>a \<in> set as. Account.customer_id a = Customer.customer_id c
           \<and> opening_date a = account_opening_date c)"
proof (induction n arbitrary: r)
  case 0
  show ?case by simp
next
  case (Suc n)
  obtain a r1 where a: "gen_account lib c r = Inr (a, r1)"
    "Account.customer_id a = Customer.customer_id c" "opening_date a = account_opening_date c"
    using gen_account_ok by blast
  obtain as r2 where as: "gen_customer_accounts lib c n r1 = Inr (as, r2)" "length as = n"
    "\<forall>a \<in> set as. Account.customer_id a = Customer.customer_id c
           \<and> opening_date a = account_opening_date c"
    using Suc.IH by blast
  show ?case using a as by (simp add: and_then_def)
qed

lemma gen_accounts_blocks:
  "\<exists>accs r' blocks. gen_accounts lib cs r = Inr (accs, r') \<and> accs = concat blocks
      \<and> list_all2 block_of cs blocks"
proof (induction cs arbitrary: r)
  case Nil
  show ?case by simp
next
  case (Cons c cs)
  obtain k r1 where k: "randint 1 3 r = (k, r1)" by (cases "randint 1 3 r")
  have kb: "1 \<le> k \<and> k \<le> 3" using randint_bounds[OF _ k] by simp
  obtain own r2 where own: "gen_customer_accounts lib c (nat k) r1 = Inr (own, r2)"
    "length own = nat k"
    "\<forall>a \<in> set own. Account.customer_id a = Customer.customer_id c
           \<and> opening_date a = account_opening_date c"
    using gen_customer_accounts_ok by blast
  obtain others r3 blocks where rest: "gen_accounts lib cs r2 = Inr (others, r3)"
    "others = concat blocks" "list_all2 block_of cs blocks"
    using Cons.IH by blast
  have "1 \<le> nat k \<and> nat k \<le> 3" using kb by linarith
  then have blk: "block_of c own"
    using own by (simp add: block_of_def list_all_iff)
  have "gen_accounts lib (c # cs) r = Inr (own @ others, r3)"
    by (simp add: k own rest and_then_def)
  moreover have "own @ others = concat (own # blocks)" using rest by simp
  moreover have "list_all2 block_of (c # cs) (own # blocks)" using blk rest by simp
  ultimately show ?case by blast
qed

lemma blocks_length:
  "list_all2 block_of cs blocks \<Longrightarrow>
     length cs \<le> length (concat blocks) \<and> length (concat blocks) \<le> 3 * length cs"
  by (induction cs blocks rule: list_all2_induct) (auto simp: block_of_def)

lemma blocks_owner:
  "list_all2 block_of cs blocks \<Longrightarrow> a \<in> set (concat blocks) \<Longrightarrow>
     \<exists>c \<in> set cs. Account.customer_id a = Customer.customer_id c
        \<and> opening_date a = account_opening_date c"
  by (induction cs blocks rule: list_all2_induct) (auto simp: block_of_def list_all_iff)

lemma blocks_nonempty:
  "list_all2 block_of cs blocks \<Longrightarrow> c \<in> set cs \<Longrightarrow>
     customer_accounts c (concat blocks) \<noteq> []"
proof (induction cs blocks rule: list_all2_induct)
  case Nil
  then show ?case by simp
next
  case (Cons x xs b bs)
  show ?case
  proof (cases "c = x")
    case True
    from Cons.hyps(1) obtain a where "a \<in> set b" "Account.customer_id a = Customer.customer_id x"
      by (cases b) (auto simp: block_of_def)
    then show ?thesis using True
      by (auto simp: customer_accounts_def filter_empty_conv)
  next
    case False
    then have "c \<in> set xs" using Cons.prems by simp
    then have "customer_accounts c (concat bs) \<noteq> []" by (rule Cons.IH)
    then show ?thesis by (simp add: customer_accounts_def)
  qed
qed

lemma pick_account_owned:
  "pick_account c accs r = Inr (a, r') \<Longrightarrow> customer_accounts c accs \<noteq> [] \<Longrightarrow>
     a \<in> set accs \<and> Account.customer_id a = Customer.customer_id c"
proof -
  assume p: "pick_account c accs r = Inr (a, r')" and ne: "customer_accounts c accs \<noteq> []"
  then have "choice (customer_accounts c accs) r = Inr (a, r')"
    by (simp add: pick_account_def)
  then have "a \<in> set (customer_accounts c accs)" by (rule choice_Inr)
  then show ?thesis by (simp add: customer_accounts_def)
qed

lemma pick_account_fallback:
  "customer_accounts c accs = [] \<Longrightarrow> accs \<noteq> [] \<Longrightarrow> pick_account c accs r = Inr (hd accs, r)"
  by (cases accs) (simp_all add: pick_account_def index0_def and_then_def)

lemma pick_account_empty:
  "pick_account c [] r = Inl (IndexError ''list index out of range'')"
  by (simp add: pick_account_def customer_accounts_def index0_def and_then_def)

lemma gen_status_ok: "\<exists>s r'. gen_status r = Inr (s, r')"
  by (simp add: gen_status_def random_lt_tenth_def choice_def split: prod.splits)

text \<open>What one iteration of the transaction loop chose.\<close>

lemma gen_transaction_Inr:
  assumes "gen_transaction lib cs ms accs r = Inr (t, r')"
  shows "\<exists>c m a r2 r3. c \<in> set cs \<and> m \<in> set ms \<and> pick_account c accs r2 = Inr (a, r3)
           \<and> Transaction.customer_id t = Customer.customer_id c
           \<and> Transaction.merchant_id t = Merchant.merchant_id m
           \<and> Transaction.account_id t = Account.account_id a"
proof -
  from assms obtain c r1 where c: "choice cs r = Inr (c, r1)"
    by (auto simp: gen_transaction_def and_then_Inr)
  from assms c obtain m r2 where m: "choice ms r1 = Inr (m, r2)"
    by (auto simp: gen_transaction_def and_then_Inr)
  from assms c m obtain a r3 where a: "pick_account c accs r2 = Inr (a, r3)"
    by (auto simp: gen_transaction_def and_then_Inr)
  from assms c m a have "Transaction.customer_id t = Customer.customer_id c
           \<and> Transaction.merchant_id t = Merchant.merchant_id m
           \<and> Transaction.account_id t = Account.account_id a"
    by (auto simp: gen_transaction_def and_then_Inr case_prod_beta)
  with c m a show ?thesis by (blast dest: choice_Inr)
qed

lemma gen_transaction_ok:
  assumes "cs \<noteq> []" "ms \<noteq> []" "\<forall>c \<in> set cs. customer_accounts c accs \<noteq> []"
  shows "\<exists>t r'. gen_transaction lib cs ms accs r = Inr (t, r')"
proof -
  obtain c r1 where c: "choice cs r = Inr (c, r1)" using choice_ok[OF assms(1)] by blast
  obtain m r2 where m: "choice ms r1 = Inr (m, r2)" using choice_ok[OF assms(2)] by blast
  have "c \<in> set cs" using c by (rule choice_Inr)
  then have ne: "customer_accounts c accs \<noteq> []" using assms(3) by blast
  obtain a r3 where "choice (customer_accounts c accs) r2 = Inr (a, r3)"
    using choice_ok[OF ne] by blast
  then have a: "pick_account c accs r2 = Inr (a, r3)"
    using ne by (simp add: pick_account_def)
  obtain u r4 where u: "draw r3 = (u, r4)" by (cases "draw r3")
  obtain amt r5 where amt: "uniform_round2 5 2000 r4 = (amt, r5)" by (cases "uniform_round2 5 2000 r4")
  have "transaction_types \<noteq> []" by (simp add: transaction_types_def)
  then obtain ty r6 where ty: "choice transaction_types r5 = Inr (ty, r6)"
    using choice_ok by blast
  have "categories \<noteq> []" by (simp add: categories_def)
  then obtain cat r7 where cat: "choice categories r6 = Inr (cat, r7)"
    using choice_ok by blast
  obtain tx r8 where tx: "draw r7 = (tx, r8)" by (cases "draw r7")
  obtain dt r9 where dt: "draw r8 = (dt, r9)" by (cases "draw r8")
  obtain st r10 where st: "gen_status r9 = Inr (st, r10)" using gen_status_ok by blast
  show ?thesis
    by (simp add: gen_transaction_def and_then_def c m a u amt ty cat tx dt st)
qed

lemma gen_transactions_ok:
  assumes "cs \<noteq> []" "ms \<noteq> []" "\<forall>c \<in> set cs. customer_accounts c accs \<noteq> []"
  shows "\<exists>ts r'. gen_transactions lib cs ms accs n r = Inr (ts, r') \<and> length ts = n"
proof (induction n arbitrary: r)
  case 0
  show ?case by simp
next
  case (Suc n)
  obtain t r1 where t: "gen_transaction lib cs ms accs r = Inr (t, r1)"
    using gen_transaction_ok[OF assms] by blast
  obtain ts r2 where ts: "gen_transactions lib cs ms accs n r1 = Inr (ts, r2)" "length ts = n"
    using Suc.IH by blast
  show ?case by (simp add: t ts and_then_def)
qed

lemma gen_transactions_length:
  "gen_transactions lib cs ms accs n r = Inr (ts, r') \<Longrightarrow> length ts = n"
  by (induction n arbitrary: r ts) (auto simp: and_then_Inr)

lemma gen_transactions_each:
  "gen_transactions lib cs ms accs n r = Inr (ts, r') \<Longrightarrow> t \<in> set ts \<Longrightarrow>
     \<exists>r1 r2. gen_transaction lib cs ms accs r1 = Inr (t, r2)"
  by (induction n arbitrary: r ts) (fastforce simp: and_then_Inr)+

lemma gen_transactions_fail:
  "0 < n \<Longrightarrow> cs = [] \<or> ms = [] \<Longrightarrow>
     gen_transactions lib cs ms accs n r = Inl (IndexError ''Cannot choose from an empty sequence'')"
proof (cases n)
  case 0
  assume "0 < n" with 0 show ?thesis by simp
next
  case (Suc k)
  assume e: "cs = [] \<or> ms = []"
  have "gen_transaction lib cs ms accs r = Inl (IndexError ''Cannot choose from an empty sequence'')"
  proof (cases "cs = []")
    case True
    then show ?thesis by (simp add: gen_transaction_def choice_empty and_then_def)
  next
    case False
    then obtain c r1 where c: "choice cs r = Inr (c, r1)" using choice_ok by blast
    from False e have "ms = []" by simp
    then show ?thesis by (simp add: gen_transaction_def c choice_empty and_then_def)
  qed
  then show ?thesis using Suc by (simp add: and_then_def)
qed

text \<open>The shape of every result of the generator.\<close>

lemma generate_sample_data_Inr:
  assumes "generate_sample_data lib nc nm nt r = Inr d"
  shows "\<exists>r1 r2 r3 r4 blocks.
           gen_customers lib (nat nc) r = (dataset.customers d, r1)
         \<and> gen_merchants lib (nat nm) r1 = Inr (dataset.merchants d, r2)
         \<and> gen_accounts lib (dataset.customers d) r2 = Inr (dataset.accounts d, r3)
         \<and> dataset.accounts d = concat blocks \<and> list_all2 block_of (dataset.customers d) blocks
         \<and> gen_transactions lib (dataset.customers d) (dataset.merchants d) (dataset.accounts d) (nat nt) r3
              = Inr (dataset.transactions d, r4)"
proof -
  obtain cs r1 where cs: "gen_customers lib (nat nc) r = (cs, r1)"
    by (cases "gen_customers lib (nat nc) r")
  from assms cs obtain ms r2 where ms: "gen_merchants lib (nat nm) r1 = Inr (ms, r2)"
    by (auto simp: generate_sample_data_def and_then_Inr)
  from assms cs ms obtain accs r3 where accs: "gen_accounts lib cs r2 = Inr (accs, r3)"
    by (auto simp: generate_sample_data_def and_then_Inr)
  from assms cs ms accs obtain ts r4 where
    ts: "gen_transactions lib cs ms accs (nat nt) r3 = Inr (ts, r4)"
    by (auto simp: generate_sample_data_def and_then_Inr)
  from assms cs ms accs ts
  have d: "d = \<lparr>dataset.customers = cs, dataset.merchants = ms, dataset.accounts = accs, dataset.transactions = ts\<rparr>"
    by (simp add: generate_sample_data_def and_then_def)
  obtain blocks where "accs = concat blocks" "list_all2 block_of cs blocks"
    using gen_accounts_blocks[of lib cs r2] accs by auto
  then show ?thesis using cs ms accs ts d by auto
qed

lemma generate_sample_data_ok:
  assumes "0 < nc" "0 < nm"
  shows "\<exists>d. generate_sample_data lib nc nm nt r = Inr d"
proof -
  obtain cs r1 where cs: "gen_customers lib (nat nc) r = (cs, r1)"
    by (cases "gen_customers lib (nat nc) r")
  have lcs: "length cs = nat nc" using cs by (rule gen_customers_length)
  obtain ms r2 where ms: "gen_merchants lib (nat nm) r1 = Inr (ms, r2)" "length ms = nat nm"
    using gen_merchants_ok by blast
  obtain accs r3 blocks where accs: "gen_accounts lib cs r2 = Inr (accs, r3)"
    "accs = concat blocks" "list_all2 block_of cs blocks"
    using gen_accounts_blocks by blast
  have ne: "cs \<noteq> []" "ms \<noteq> []" using lcs ms(2) assms by auto
  have own: "\<forall>c \<in> set cs. customer_accounts c accs \<noteq> []"
    using accs blocks_nonempty by blast
  obtain ts r4 where ts: "gen_transactions lib cs ms accs (nat nt) r3 = Inr (ts, r4)"
    using gen_transactions_ok[OF ne own] by blast
  show ?thesis by (simp add: generate_sample_data_def cs ms accs(1) ts and_then_def)
qed

lemma pick_account_ok:
  "accs \<noteq> [] \<Longrightarrow> \<exists>a r'. pick_account c accs r = Inr (a, r')"
proof (cases "customer_accounts c accs = []")
  case True
  assume "accs \<noteq> []"
  with True show ?thesis using pick_account_fallback by blast
next
  case False
  then obtain a r' where "choice (customer_accounts c accs) r = Inr (a, r')"
    using choice_ok by blast
  with False show ?thesis by (simp add: pick_account_def)
qed

lemma gen_transaction_fallback:
  assumes "gen_transaction lib cs ms accs r = Inr (t, r')"
    and "filter (\<lambda>a. Account.customer_id a = Transaction.customer_id t) accs = []"
  shows "accs \<noteq> [] \<and> Transaction.account_id t = Account.account_id (hd accs)"
proof -
  from gen_transaction_Inr[OF assms(1)] obtain c a r2 r3 where
    p: "pick_account c accs r2 = Inr (a, r3)"
    and c: "Transaction.customer_id t = Customer.customer_id c"
    and a: "Transaction.account_id t = Account.account_id a"
    by blast
  have e: "customer_accounts c accs = []"
    using assms(2) c by (simp add: customer_accounts_def)
  show ?thesis
  proof (cases accs)
    case Nil
    then show ?thesis using p by (simp add: pick_account_empty)
  next
    case (Cons x xs)
    then have "pick_account c accs r2 = Inr (hd accs, r2)"
      using e pick_account_fallback by blast
    then show ?thesis using p a Cons by simp
  qed
qed

lemma dataset_transaction_owned:
  assumes "generate_sample_data lib nc nm nt r = Inr d" "t \<in> set (dataset.transactions d)"
  shows "\<exists>a \<in> set (dataset.accounts d).
           Account.account_id a = Transaction.account_id t
         \<and> Account.customer_id a = Transaction.customer_id t"
proof -
  from generate_sample_data_Inr[OF assms(1)] obtain r3 r4 blocks where
    b: "dataset.accounts d = concat blocks" "list_all2 block_of (dataset.customers d) blocks"
    and ts: "gen_transactions lib (dataset.customers d) (dataset.merchants d) (dataset.accounts d)
               (nat nt) r3 = Inr (dataset.transactions d, r4)"
    by blast
  from gen_transactions_each[OF ts assms(2)] obtain r1 r2 where
    "gen_transaction lib (dataset.customers d) (dataset.merchants d) (dataset.accounts d) r1
       = Inr (t, r2)" by blast
  from gen_transaction_Inr[OF this] obtain c a q1 q2 where
    c: "c \<in> set (dataset.customers d)"
    and p: "pick_account c (dataset.accounts d) q1 = Inr (a, q2)"
    and eq: "Transaction.customer_id t = Customer.customer_id c"
            "Transaction.account_id t = Account.account_id a"
    by blast
  have "customer_accounts c (dataset.accounts d) \<noteq> []"
    using blocks_nonempty[OF b(2) c] b(1) by simp
  from pick_account_owned[OF p this] show ?thesis using eq by auto
qed

text \<open>
  Claim C1. In every dataset that \<open>generate_sample_data\<close> returns, the account identifier
  of every transaction is the identifier of an account whose customer identifier is the
  transaction's own customer identifier. In the fallback of one iteration of the transaction
  loop, where no account carries the chosen customer's identifier, the transaction gets the
  identifier of the first account of the whole list (whatever lists the iteration is given).
\<close>

theorem transaction_account_of_customer:
  "(generate_sample_data lib nc nm nt r = Inr d \<longrightarrow>
      (\<forall>t \<in> set (dataset.transactions d). \<exists>a \<in> set (dataset.accounts d).
          Account.account_id a = Transaction.account_id t
        \<and> Account.customer_id a = Transaction.customer_id t))
   \<and> (gen_transaction lib cs ms accs r0 = Inr (t0, r0') \<longrightarrow>
        filter (\<lambda>a. Account.customer_id a = Transaction.customer_id t0) accs = [] \<longrightarrow>
        accs \<noteq> [] \<and> Transaction.account_id t0 = Account.account_id (hd accs))"
  using dataset_transaction_owned gen_transaction_fallback by blast

lemma demo_fallback_run:
  "\<exists>t r'. gen_transaction demo_lib [demo_customer] [demo_merchant] [foreign_account] demo_tape
      = Inr (t, r') \<and> Transaction.customer_id t = []"
  by (simp add: gen_transaction_def choice_def draw_def demo_tape_def and_then_def
      pick_account_def customer_accounts_def index0_def demo_customer_def gen_customer_def
      randint_def foreign_account_def demo_lib_def uniform_round2_def transaction_types_def
      categories_def gen_status_def random_lt_tenth_def)

theorem transaction_account_of_customer_witness:
  "(\<exists>d t. generate_sample_data demo_lib 1 1 1 demo_tape = Inr d
       \<and> t \<in> set (dataset.transactions d)
       \<and> (\<exists>a \<in> set (dataset.accounts d).
             Account.account_id a = Transaction.account_id t
           \<and> Account.customer_id a = Transaction.customer_id t))
   \<and> (\<exists>t r'. gen_transaction demo_lib [demo_customer] [demo_merchant] [foreign_account] demo_tape
                 = Inr (t, r')
       \<and> filter (\<lambda>a. Account.customer_id a = Transaction.customer_id t) [foreign_account] = []
       \<and> Transaction.account_id t = Account.account_id (hd [foreign_account]))"
proof
  obtain d where d: "generate_sample_data demo_lib 1 1 1 demo_tape = Inr d"
    using generate_sample_data_ok[of 1 1 demo_lib 1 demo_tape] by auto
  from generate_sample_data_Inr[OF d] obtain r3 r4 where
    "gen_transactions demo_lib (dataset.customers d) (dataset.merchants d) (dataset.accounts d)
       (nat 1) r3 = Inr (dataset.transactions d, r4)" by blast
  then have "length (dataset.transactions d) = 1"
    using gen_transactions_length by fastforce
  then obtain t where t: "t \<in> set (dataset.transactions d)"
    by (cases "dataset.transactions d") auto
  from transaction_account_of_customer[of demo_lib 1 1 1 demo_tape d] d t
  show "\<exists>d t. generate_sample_data demo_lib 1 1 1 demo_tape = Inr d
       \<and> t \<in> set (dataset.transactions d)
       \<and> (\<exists>a \<in> set (dataset.accounts d).
             Account.account_id a = Transaction.account_id t
           \<and> Account.customer_id a = Transaction.customer_id t)"
    by blast
next
  obtain t r' where t:
    "gen_transaction demo_lib [demo_customer] [demo_merchant] [foreign_account] demo_tape
       = Inr (t, r')" "Transaction.customer_id t = []"
    using demo_fallback_run by blast
  have e: "filter (\<lambda>a. Account.customer_id a = Transaction.customer_id t) [foreign_account] = []"
    using t(2) by (simp add: foreign_account_def)
  from transaction_account_of_customer[of demo_lib 1 1 1 demo_tape _ "[demo_customer]"
      "[demo_merchant]" "[foreign_account]" demo_tape t r'] t e
  show "\<exists>t r'. gen_transaction demo_lib [demo_customer] [demo_merchant] [foreign_account] demo_tape
                 = Inr (t, r')
       \<and> filter (\<lambda>a. Account.customer_id a = Transaction.customer_id t) [foreign_account] = []
       \<and> Transaction.account_id t = Account.account_id (hd [foreign_account])"
    by blast
qed

lemma demo_run: "\<exists>d. generate_sample_data demo_lib 3 2 10 demo_tape = Inr d"
  using generate_sample_data_ok[of 3 2 demo_lib 10 demo_tape] by simp

lemma list_all2_weaken:
  "list_all2 P xs ys \<Longrightarrow> (\<And>x y. P x y \<Longrightarrow> Q x y) \<Longrightarrow> list_all2 Q xs ys"
  by (rule list_all2_mono)

text \<open>
  Claim C2. In every dataset that \<open>generate_sample_data\<close> returns, the customer identifier
  of every account is the identifier of a customer of the same dataset: the accounts are the
  concatenation of one block per customer, in the customers' order, and every account of a
  block carries the identifier of the block's customer.
\<close>

theorem account_customer_in_batch:
  assumes "generate_sample_data lib nc nm nt r = Inr d"
  shows "(\<forall>a \<in> set (dataset.accounts d). \<exists>c \<in> set (dataset.customers d).
            Account.customer_id a = Customer.customer_id c)
       \<and> (\<exists>blocks. dataset.accounts d = concat blocks
            \<and> list_all2 (\<lambda>c as. \<forall>a \<in> set as. Account.customer_id a = Customer.customer_id c)
                 (dataset.customers d) blocks)"
proof -
  from generate_sample_data_Inr[OF assms] obtain blocks where
    b: "dataset.accounts d = concat blocks" "list_all2 block_of (dataset.customers d) blocks"
    by blast
  have "\<forall>a \<in> set (dataset.accounts d). \<exists>c \<in> set (dataset.customers d).
            Account.customer_id a = Customer.customer_id c"
    using blocks_owner[OF b(2)] b(1) by fastforce
  moreover have "list_all2 (\<lambda>c as. \<forall>a \<in> set as. Account.customer_id a = Customer.customer_id c)
                 (dataset.customers d) blocks"
    using b(2) by (rule list_all2_mono) (simp add: block_of_def list_all_iff)
  ultimately show ?thesis using b(1) by blast
qed

theorem account_customer_in_batch_witness:
  "\<exists>d. generate_sample_data demo_lib 3 2 10 demo_tape = Inr d
     \<and> (\<forall>a \<in> set (dataset.accounts d). \<exists>c \<in> set (dataset.customers d).
            Account.customer_id a = Customer.customer_id c)
     \<and> (\<exists>blocks. dataset.accounts d = concat blocks
            \<and> list_all2 (\<lambda>c as. \<forall>a \<in> set as. Account.customer_id a = Customer.customer_id c)
                 (dataset.customers d) blocks)"
proof -
  obtain d where d: "generate_sample_data demo_lib 3 2 10 demo_tape = Inr d"
    using demo_run by blast
  from account_customer_in_batch[OF d] d show ?thesis by blast
qed

text \<open>
  Claim C6. For positive counts \<open>c\<close>, \<open>m\<close> and \<open>t\<close> the generator returns, for every
  random source, a dataset of four sequences with exactly \<open>c\<close> customers, \<open>m\<close> merchants
  and \<open>t\<close> transactions.
\<close>

theorem generated_counts:
  assumes "0 < c" "0 < m" "0 < t"
  shows "\<exists>d. generate_sample_data lib c m t r = Inr d
           \<and> int (length (dataset.customers d)) = c
           \<and> int (length (dataset.merchants d)) = m
           \<and> int (length (dataset.transactions d)) = t"
proof -
  obtain d where d: "generate_sample_data lib c m t r = Inr d"
    using generate_sample_data_ok[OF assms(1,2)] by blast
  from generate_sample_data_Inr[OF d] obtain r1 r2 r3 r4 where
    cs: "gen_customers lib (nat c) r = (dataset.customers d, r1)"
    and ms: "gen_merchants lib (nat m) r1 = Inr (dataset.merchants d, r2)"
    and ts: "gen_transactions lib (dataset.customers d) (dataset.merchants d) (dataset.accounts d)
               (nat t) r3 = Inr (dataset.transactions d, r4)"
    by blast
  have "length (dataset.customers d) = nat c" using cs by (rule gen_customers_length)
  moreover have "length (dataset.merchants d) = nat m"
    using gen_merchants_ok[of lib "nat m" r1] ms by auto
  moreover have "length (dataset.transactions d) = nat t"
    using ts by (rule gen_transactions_length)
  ultimately show ?thesis using d assms by auto
qed

theorem generated_counts_witness:
  "(0::int) < 3 \<and> (0::int) < 2 \<and> (0::int) < 10
   \<and> (\<exists>d. generate_sample_data demo_lib 3 2 10 demo_tape = Inr d
           \<and> int (length (dataset.customers d)) = 3
           \<and> int (length (dataset.merchants d)) = 2
           \<and> int (length (dataset.transactions d)) = 10)"
  using generated_counts[of 3 2 10 demo_lib demo_tape] by simp

text \<open>
  Claim C7. In every dataset that \<open>generate_sample_data\<close> returns, with as many customers as
  the customer count says, the number of accounts lies between the number of customers and
  three times that number, because every customer contributes a block of one to three
  accounts.
\<close>

theorem accounts_count_bounds:
  assumes "generate_sample_data lib nc nm nt r = Inr d"
  shows "length (dataset.customers d) = nat nc
       \<and> length (dataset.customers d) \<le> length (dataset.accounts d)
       \<and> length (dataset.accounts d) \<le> 3 * length (dataset.customers d)
       \<and> (\<exists>blocks. dataset.accounts d = concat blocks
            \<and> list_all2 (\<lambda>c as. 1 \<le> length as \<and> length as \<le> 3) (dataset.customers d) blocks)"
proof -
  from generate_sample_data_Inr[OF assms] obtain r1 blocks where
    cs: "gen_customers lib (nat nc) r = (dataset.customers d, r1)"
    and b: "dataset.accounts d = concat blocks" "list_all2 block_of (dataset.customers d) blocks"
    by blast
  have "length (dataset.customers d) = nat nc" using cs by (rule gen_customers_length)
  moreover have "length (dataset.customers d) \<le> length (dataset.accounts d)
       \<and> length (dataset.accounts d) \<le> 3 * length (dataset.customers d)"
    using blocks_length[OF b(2)] b(1) by simp
  moreover have "list_all2 (\<lambda>c as. 1 \<le> length as \<and> length as \<le> 3) (dataset.customers d) blocks"
    using b(2) by (rule list_all2_mono) (simp add: block_of_def)
  ultimately show ?thesis using b(1) by blast
qed

theorem accounts_count_bounds_witness:
  "\<exists>d. generate_sample_data demo_lib 3 2 10 demo_tape = Inr d
     \<and> length (dataset.customers d) = 3
     \<and> 3 \<le> length (dataset.accounts d) \<and> length (dataset.accounts d) \<le> 9"
proof -
  obtain d where d: "generate_sample_data demo_lib 3 2 10 demo_tape = Inr d"
    using demo_run by blast
  from accounts_count_bounds[OF d] d show ?thesis by auto
qed

text \<open>
  Claim C8. The risk score of every customer record that the generator produces (every record
  of the customer loop, and so every customer of a returned dataset) is an integer between 10
  and 90, hence within the bound 0 to 100 of the data model.
\<close>

theorem risk_score_range:
  "(gen_customers lib n r = (cs, r') \<longrightarrow>
      (\<forall>c \<in> set cs. 10 \<le> risk_score c \<and> risk_score c \<le> 90
                     \<and> 0 \<le> risk_score c \<and> risk_score c \<le> 100))
   \<and> (generate_sample_data lib nc nm nt r0 = Inr d \<longrightarrow>
      (\<forall>c \<in> set (dataset.customers d). 10 \<le> risk_score c \<and> risk_score c \<le> 90
                     \<and> 0 \<le> risk_score c \<and> risk_score c \<le> 100))"
proof (rule conjI; intro impI ballI)
  fix c
  assume "gen_customers lib n r = (cs, r')" "c \<in> set cs"
  from gen_customers_risk[OF this]
  show "10 \<le> risk_score c \<and> risk_score c \<le> 90 \<and> 0 \<le> risk_score c \<and> risk_score c \<le> 100"
    by simp
next
  fix c
  assume d: "generate_sample_data lib nc nm nt r0 = Inr d" and c: "c \<in> set (dataset.customers d)"
  from generate_sample_data_Inr[OF d] obtain r1 where
    "gen_customers lib (nat nc) r0 = (dataset.customers d, r1)" by blast
  from gen_customers_risk[OF this c]
  show "10 \<le> risk_score c \<and> risk_score c \<le> 90 \<and> 0 \<le> risk_score c \<and> risk_score c \<le> 100"
    by simp
qed

theorem risk_score_range_witness:
  "(\<exists>cs r'. gen_customers demo_lib 2 demo_tape = (cs, r') \<and> cs \<noteq> []
       \<and> (\<forall>c \<in> set cs. 10 \<le> risk_score c \<and> risk_score c \<le> 90))
   \<and> (\<exists>d. generate_sample_data demo_lib 3 2 10 demo_tape = Inr d
       \<and> dataset.customers d \<noteq> []
       \<and> (\<forall>c \<in> set (dataset.customers d). 10 \<le> risk_score c \<and> risk_score c \<le> 90))"
proof
  obtain cs r' where cs: "gen_customers demo_lib 2 demo_tape = (cs, r')"
    by (cases "gen_customers demo_lib 2 demo_tape")
  have "length cs = 2" using cs by (rule gen_customers_length)
  then have "cs \<noteq> []" by auto
  with cs risk_score_range[of demo_lib 2 demo_tape cs r']
  show "\<exists>cs r'. gen_customers demo_lib 2 demo_tape = (cs, r') \<and> cs \<noteq> []
       \<and> (\<forall>c \<in> set cs. 10 \<le> risk_score c \<and> risk_score c \<le> 90)"
    by blast
next
  obtain d where d: "generate_sample_data demo_lib 3 2 10 demo_tape = Inr d"
    using demo_run by blast
  from generate_sample_data_Inr[OF d] obtain r1 where
    "gen_customers demo_lib (nat 3) demo_tape = (dataset.customers d, r1)" by blast
  then have "length (dataset.customers d) = nat 3" by (rule gen_customers_length)
  then have "dataset.customers d \<noteq> []" by auto
  with d risk_score_range[of demo_lib _ _ _ _ 3 2 10 demo_tape d]
  show "\<exists>d. generate_sample_data demo_lib 3 2 10 demo_tape = Inr d
       \<and> dataset.customers d \<noteq> []
       \<and> (\<forall>c \<in> set (dataset.customers d). 10 \<le> risk_score c \<and> risk_score c \<le> 90)"
    by blast
qed

text \<open>
  Claim C9. In every dataset that \<open>generate_sample_data\<close> returns, the opening date of every
  account equals the account-opening date of the customer in whose block it was generated,
  and is therefore not earlier than it.
\<close>

theorem account_opening_date_copied:
  assumes "generate_sample_data lib nc nm nt r = Inr d"
  shows "\<exists>blocks. dataset.accounts d = concat blocks
           \<and> list_all2 (\<lambda>c as. \<forall>a \<in> set as.
                  Account.customer_id a = Customer.customer_id c
                \<and> opening_date a = account_opening_date c
                \<and> account_opening_date c \<le> opening_date a)
               (dataset.customers d) blocks"
proof -
  from generate_sample_data_Inr[OF assms] obtain blocks where
    b: "dataset.accounts d = concat blocks" "list_all2 block_of (dataset.customers d) blocks"
    by blast
  have "list_all2 (\<lambda>c as. \<forall>a \<in> set as.
                  Account.customer_id a = Customer.customer_id c
                \<and> opening_date a = account_opening_date c
                \<and> account_opening_date c \<le> opening_date a)
               (dataset.customers d) blocks"
    using b(2) by (rule list_all2_mono) (simp add: block_of_def list_all_iff)
  then show ?thesis using b(1) by blast
qed

theorem account_opening_date_copied_witness:
  "\<exists>d blocks. generate_sample_data demo_lib 3 2 10 demo_tape = Inr d
     \<and> dataset.accounts d = concat blocks
     \<and> list_all2 (\<lambda>c as. \<forall>a \<in> set as.
                  Account.customer_id a = Customer.customer_id c
                \<and> opening_date a = account_opening_date c
                \<and> account_opening_date c \<le> opening_date a)
               (dataset.customers d) blocks"
proof -
  obtain d where d: "generate_sample_data demo_lib 3 2 10 demo_tape = Inr d"
    using demo_run by blast
  from account_opening_date_copied[OF d] d show ?thesis by blast
qed

section \<open>Empty populations\<close>

lemma gen_transactions_zero:
  "gen_transactions lib cs ms accs (nat nt) r = Inr ([], r)" if "nt \<le> 0"
  using that by simp

lemma empty_population_raises:
  assumes "nc \<le> 0 \<or> nm \<le> 0" "0 < nt"
  shows "generate_sample_data lib nc nm nt r
           = Inl (IndexError ''Cannot choose from an empty sequence'')"
proof -
  obtain cs r1 where cs: "gen_customers lib (nat nc) r = (cs, r1)"
    by (cases "gen_customers lib (nat nc) r")
  have lcs: "length cs = nat nc" using cs by (rule gen_customers_length)
  obtain ms r2 where ms: "gen_merchants lib (nat nm) r1 = Inr (ms, r2)" "length ms = nat nm"
    using gen_merchants_ok by blast
  obtain accs r3 where accs: "gen_accounts lib cs r2 = Inr (accs, r3)"
    using gen_accounts_blocks by blast
  have "cs = [] \<or> ms = []" using lcs ms(2) assms(1) by auto
  moreover have "0 < nat nt" using assms(2) by simp
  ultimately have "gen_transactions lib cs ms accs (nat nt) r3
      = Inl (IndexError ''Cannot choose from an empty sequence'')"
    using gen_transactions_fail by blast
  then show ?thesis by (simp add: generate_sample_data_def cs ms(1) accs and_then_def)
qed

lemma no_transactions_returns:
  assumes "nt \<le> 0"
  shows "\<exists>d. generate_sample_data lib nc nm nt r = Inr d \<and> dataset.transactions d = []
           \<and> length (dataset.customers d) = nat nc \<and> length (dataset.merchants d) = nat nm
           \<and> (nc \<le> 0 \<longrightarrow> dataset.accounts d = [])"
proof -
  obtain cs r1 where cs: "gen_customers lib (nat nc) r = (cs, r1)"
    by (cases "gen_customers lib (nat nc) r")
  have lcs: "length cs = nat nc" using cs by (rule gen_customers_length)
  obtain ms r2 where ms: "gen_merchants lib (nat nm) r1 = Inr (ms, r2)" "length ms = nat nm"
    using gen_merchants_ok by blast
  obtain accs r3 blocks where accs: "gen_accounts lib cs r2 = Inr (accs, r3)"
    "accs = concat blocks" "list_all2 block_of cs blocks"
    using gen_accounts_blocks by blast
  have "length accs \<le> 3 * length cs" using blocks_length[OF accs(3)] accs(2) by simp
  then have "nc \<le> 0 \<longrightarrow> accs = []" using lcs by auto
  moreover have "generate_sample_data lib nc nm nt r
     = Inr \<lparr>dataset.customers = cs, merchants = ms, accounts = accs, transactions = []\<rparr>"
    using assms by (simp add: generate_sample_data_def cs ms(1) accs(1) and_then_def)
  ultimately show ?thesis using lcs ms(2) by simp
qed

text \<open>
  Claim C3, as the code has it. The generator validates nothing. Called with a customer count
  or a merchant count that is not positive, it returns a dataset without transactions when
  the transaction count is not positive either (with as many customers and merchants as the
  counts say, and without accounts when there are no customers); with a positive transaction
  count it enters the transaction loop and \<^verbatim>\<open>random.choice\<close> raises IndexError on the
  empty population, which the endpoint \<^verbatim>\<open>generate_data\<close> turns into an HTTP 400 without
  loading anything. The claim as written (a ValidationError before any record, or a return)
  fails at the counts 0, 1, 1.
\<close>

theorem empty_population:
  assumes "nc \<le> 0 \<or> nm \<le> 0"
  shows "(0 < nt \<longrightarrow>
            generate_sample_data lib nc nm nt r
              = Inl (IndexError ''Cannot choose from an empty sequence'')
          \<and> (connection (snowflake_manager w) \<noteq> None \<longrightarrow>
               generate_data ev lib
                 \<lparr>DataGenerationRequest.customers = nc, merchants = nm, transactions = nt\<rparr> r w
               = (Inl (HTTPException 400
                    ''Data generation failed: Cannot choose from an empty sequence''), w)))
       \<and> (nt \<le> 0 \<longrightarrow>
            (\<exists>d. generate_sample_data lib nc nm nt r = Inr d \<and> dataset.transactions d = []
               \<and> length (dataset.customers d) = nat nc \<and> length (dataset.merchants d) = nat nm
               \<and> (nc \<le> 0 \<longrightarrow> dataset.accounts d = [])))"
proof (intro conjI impI)
  assume "0 < nt"
  with assms show g: "generate_sample_data lib nc nm nt r
              = Inl (IndexError ''Cannot choose from an empty sequence'')"
    by (rule empty_population_raises)
  assume "connection (snowflake_manager w) \<noteq> None"
  then show "generate_data ev lib
                 \<lparr>DataGenerationRequest.customers = nc, merchants = nm, transactions = nt\<rparr> r w
               = (Inl (HTTPException 400
                    ''Data generation failed: Cannot choose from an empty sequence''), w)"
    using g by (simp add: generate_data_def str_exception_def)
next
  assume "nt \<le> 0"
  then show "\<exists>d. generate_sample_data lib nc nm nt r = Inr d \<and> dataset.transactions d = []
               \<and> length (dataset.customers d) = nat nc \<and> length (dataset.merchants d) = nat nm
               \<and> (nc \<le> 0 \<longrightarrow> dataset.accounts d = [])"
    by (rule no_transactions_returns)
qed

lemma connected_world_eq:
  "connected_world =
     \<lparr>snowflake_manager = \<lparr>connection = Some 0, connection_params = Some demo_params\<rparr>,
      calls = [Connect demo_params]\<rparr>"
  by (simp add: connected_world_def connect_def demo_env_def demo_params_def init_world_def
      sent_def)

theorem empty_population_witness:
  "generate_sample_data demo_lib 0 1 1 demo_tape
     = Inl (IndexError ''Cannot choose from an empty sequence'')
   \<and> generate_data demo_env demo_lib
        \<lparr>DataGenerationRequest.customers = 0, merchants = 1, transactions = 1\<rparr>
        demo_tape connected_world
     = (Inl (HTTPException 400 ''Data generation failed: Cannot choose from an empty sequence''),
        connected_world)
   \<and> (\<exists>d. generate_sample_data demo_lib 2 0 0 demo_tape = Inr d \<and> dataset.transactions d = []
         \<and> length (dataset.customers d) = 2 \<and> length (dataset.merchants d) = 0)"
proof -
  have c: "connection (snowflake_manager connected_world) \<noteq> None"
    by (simp add: connected_world_eq)
  show ?thesis
    using empty_population[of 0 1 1 demo_lib demo_tape connected_world demo_env] c
      empty_population[of 2 0 0 demo_lib demo_tape connected_world demo_env]
    by simp
qed

text \<open>The claim as written fails: no customers, or no merchants, and one transaction.\<close>

theorem empty_population_counterexample:
  "generate_sample_data demo_lib 0 1 1 demo_tape
     = Inl (IndexError ''Cannot choose from an empty sequence'')
   \<and> generate_sample_data demo_lib 1 0 1 demo_tape
     = Inl (IndexError ''Cannot choose from an empty sequence'')"
  using empty_population_raises[of 0 1 1 demo_lib demo_tape]
    empty_population_raises[of 1 0 1 demo_lib demo_tape] by simp

section \<open>Properties of the gateway\<close>

text \<open>
  Claim C5. On a gateway whose connection is \<^verbatim>\<open>None\<close>, \<open>execute_query\<close> and
  \<open>load_dataframe\<close> fail with HTTP 400, \<^verbatim>\<open>No active Snowflake connection\<close>, whatever
  the query, the frame and the driver are; the state is unchanged, so nothing was handed to
  the driver and no connection was made.
\<close>

theorem disconnected_gateway_fails:
  assumes "connection (snowflake_manager w) = None"
  shows "execute_query ev query fetch_results w
           = (Inl (HTTPException 400 ''No active Snowflake connection''), w)
       \<and> load_dataframe ev df table_name if_exists w
           = (Inl (HTTPException 400 ''No active Snowflake connection''), w)"
  using assms by (simp add: execute_query_def load_dataframe_def)

theorem disconnected_gateway_fails_witness:
  "connection (snowflake_manager init_world) = None
   \<and> execute_query demo_env ''SELECT 1'' True init_world
       = (Inl (HTTPException 400 ''No active Snowflake connection''), init_world)
   \<and> load_dataframe demo_env (DataFrame_customers []) ''customers'' ''replace'' init_world
       = (Inl (HTTPException 400 ''No active Snowflake connection''), init_world)"
proof -
  have n: "connection (snowflake_manager init_world) = None" by (simp add: init_world_def)
  from disconnected_gateway_fails[OF n, of demo_env "''SELECT 1''" True
      "DataFrame_customers []" "''customers''" "''replace''"] n
  show ?thesis by simp
qed

text \<open>
  Claim C10. A call of \<open>connect\<close> that fails leaves the stored connection handle as it
  was and has already overwritten \<open>connection_params\<close> with the failing parameters: where
  a session was live before, the status endpoint still reports connected, with the database
  name of the parameters that never connected.
\<close>

theorem connect_failure_keeps_handle:
  assumes "connect ev params w = (Inl e, w')"
  shows "connection (snowflake_manager w') = connection (snowflake_manager w)
       \<and> connection_params (snowflake_manager w') = Some params
       \<and> (\<exists>msg. e = HTTPException 400 (''Snowflake connection failed: '' @ msg))
       \<and> (connection (snowflake_manager w) \<noteq> None \<longrightarrow>
            snowflake_status w' = Inr (Status_connected (database params)))"
  using assms
  by (auto simp: connect_def sent_def snowflake_status_def Let_def split: sum.splits)

theorem connect_failure_keeps_handle_witness:
  "\<exists>e w'. connect demo_env other_params connected_world = (Inl e, w')
     \<and> snowflake_status connected_world = Inr (Status_connected ''FINANCIAL_DW'')
     \<and> connection (snowflake_manager w') = Some 0
     \<and> connection_params (snowflake_manager w') = Some other_params
     \<and> snowflake_status w' = Inr (Status_connected ''OTHER_DB'')"
proof -
  obtain e w' where f: "connect demo_env other_params connected_world = (Inl e, w')"
    by (simp add: connect_def demo_env_def other_params_def demo_params_def)
  have s: "snowflake_status connected_world = Inr (Status_connected ''FINANCIAL_DW'')"
    by (simp add: connected_world_eq snowflake_status_def demo_params_def)
  have c: "connection (snowflake_manager connected_world) = Some 0"
    by (simp add: connected_world_eq)
  have d: "database other_params = ''OTHER_DB''"
    by (simp add: other_params_def demo_params_def)
  from connect_failure_keeps_handle[OF f] f s c d show ?thesis by simp
qed

subsection \<open>What reaches the driver\<close>

lemma execute_query_calls:
  "connection (snowflake_manager w) = Some h \<Longrightarrow>
     calls (snd (execute_query ev query fetch_results w)) = calls w @ [Execute h query]
   \<and> snowflake_manager (snd (execute_query ev query fetch_results w)) = snowflake_manager w"
  by (simp add: execute_query_def sent_def split: sum.splits)

lemma execute_query_endpoint_calls:
  assumes "connection (snowflake_manager w) = Some h"
  shows "calls (snd (execute_query_endpoint ev request w))
           = calls w @ [Execute h (limited_query request)]"
proof -
  have "snd (execute_query_endpoint ev request w)
          = snd (execute_query ev (limited_query request) True w)"
    using assms by (simp add: execute_query_endpoint_def split: prod.splits sum.splits)
  then show ?thesis using execute_query_calls[OF assms] by simp
qed

lemma limited_query_cases:
  "limited_query request =
     strip (sql_query request) @
       (case limit request of
          None \<Rightarrow> []
        | Some n \<Rightarrow>
            if n \<noteq> 0 \<and> count_sub (upper (strip (sql_query request))) ''LIMIT'' = 0
            then '' LIMIT '' @ str_int n else [])"
  by (simp add: limited_query_def Let_def split: option.splits)

text \<open>
  Claim C4, as the code has it. The method \<open>execute_query\<close> of the manager hands the
  driver exactly the string it is given. The endpoint \<^verbatim>\<open>/query/execute\<close> does not pass
  the caller's string on as it is: it strips the white space at both ends and, when the limit
  of the request is neither \<^verbatim>\<open>None\<close> nor 0 and the upper-cased stripped query has no
  occurrence of \<^verbatim>\<open>LIMIT\<close>, appends \<^verbatim>\<open> LIMIT \<close> and the limit. Nothing else is
  checked or changed.
\<close>

theorem forwarded_query:
  assumes "connection (snowflake_manager w) = Some h"
  shows "calls (snd (execute_query ev query fetch_results w)) = calls w @ [Execute h query]
       \<and> calls (snd (execute_query_endpoint ev request w))
           = calls w @ [Execute h (limited_query request)]
       \<and> limited_query request =
           strip (sql_query request) @
             (case limit request of
                None \<Rightarrow> []
              | Some n \<Rightarrow>
                  if n \<noteq> 0 \<and> count_sub (upper (strip (sql_query request))) ''LIMIT'' = 0
                  then '' LIMIT '' @ str_int n else [])"
  using execute_query_calls[OF assms] execute_query_endpoint_calls[OF assms]
    limited_query_cases by blast

theorem forwarded_query_witness:
  "connection (snowflake_manager connected_world) = Some 0
   \<and> calls (snd (execute_query demo_env ''SELECT 1 '' True connected_world))
       = [Connect demo_params, Execute 0 ''SELECT 1 '']
   \<and> calls (snd (execute_query_endpoint demo_env
              \<lparr>sql_query = ''select * from t limit 5'', limit = Some 1000\<rparr> connected_world))
       = [Connect demo_params, Execute 0 ''select * from t limit 5'']"
proof -
  have c: "connection (snowflake_manager connected_world) = Some 0"
    by (simp add: connected_world_eq)
  have l: "limited_query \<lparr>sql_query = ''select * from t limit 5'', limit = Some 1000\<rparr>
             = ''select * from t limit 5''"
    by code_simp
  from forwarded_query[OF c, of demo_env "''SELECT 1 ''" True
      "\<lparr>sql_query = ''select * from t limit 5'', limit = Some 1000\<rparr>"] c l
  show ?thesis by (simp add: connected_world_eq)
qed

text \<open>The claim as written fails: the default limit is appended, white space is stripped.\<close>

theorem forwarded_query_counterexample:
  "calls (snd (execute_query_endpoint demo_env
            \<lparr>sql_query = ''SELECT 1'', limit = Some 1000\<rparr> connected_world))
     = [Connect demo_params, Execute 0 ''SELECT 1 LIMIT 1000'']
   \<and> calls (snd (execute_query_endpoint demo_env
            \<lparr>sql_query = '' SELECT 1 '', limit = None\<rparr> connected_world))
     = [Connect demo_params, Execute 0 ''SELECT 1'']"
proof -
  have c: "connection (snowflake_manager connected_world) = Some 0"
    by (simp add: connected_world_eq)
  have l1: "limited_query \<lparr>sql_query = ''SELECT 1'', limit = Some 1000\<rparr> = ''SELECT 1 LIMIT 1000''"
    by code_simp
  have l2: "limited_query \<lparr>sql_query = '' SELECT 1 '', limit = None\<rparr> = ''SELECT 1''"
    by code_simp
  show ?thesis
    using execute_query_endpoint_calls[OF c] by (simp add: l1 l2 connected_world_eq)
qed

end
